theory Spec2Isabelle
  imports Complex_Main
begin

section \<open>Data model\<close>

text \<open>
  The enumerations of the type declarations: \<^verbatim>\<open>AppMode\<close> and \<^verbatim>\<open>GestureType\<close>.
\<close>

datatype AppMode = TREE | SCATTER | PHOTO_VIEW

datatype GestureType = NONE | OPEN_HAND | FIST | PINCH

text \<open>
  A landmark is \<^verbatim>\<open>{ x: number; y: number; z: number }\<close> and the published hand signal is
  \<^verbatim>\<open>HandData = { gesture, x, y, isPresent }\<close>. Both interfaces name their coordinates
  \<^verbatim>\<open>x\<close> and \<^verbatim>\<open>y\<close>; the fields are prefixed here (\<open>lm_\<close> for a landmark, \<open>hand_\<close> for
  the signal) so that the two records do not shadow each other. JavaScript numbers are
  modelled as mathematical reals: the development is about the decision logic, not about
  rounding, infinities or NaN.
\<close>

record Landmark =
  lm_x :: real
  lm_y :: real
  lm_z :: real

record HandData =
  gesture :: GestureType
  hand_x :: real
  hand_y :: real
  isPresent :: bool

text \<open>
  \<^verbatim>\<open>Results\<close> of the pose estimator. Only \<^verbatim>\<open>multiHandLandmarks\<close> is read by the
  callback; it may be missing (\<open>None\<close>), which JavaScript treats as falsy.
\<close>

record Results =
  multiHandLandmarks :: "Landmark list list option"

text \<open>
  The only failure of the callback is the \<^verbatim>\<open>TypeError\<close> that JavaScript raises when a
  property is read from \<^verbatim>\<open>undefined\<close>, which is what \<^verbatim>\<open>landmarks[i]\<close> is for an index
  outside the array.
\<close>

datatype error = TypeError

definition elem :: "Landmark list \<Rightarrow> nat \<Rightarrow> error + Landmark" where
  "elem landmarks i = (if i < length landmarks then Inr (landmarks ! i) else Inl TypeError)"

definition bind :: "error + 'a \<Rightarrow> ('a \<Rightarrow> error + 'b) \<Rightarrow> error + 'b" where
  "bind m f = (case m of Inl e \<Rightarrow> Inl e | Inr v \<Rightarrow> f v)"

text \<open>\<^verbatim>\<open>Math.hypot\<close> on two arguments.\<close>

definition hypot :: "real \<Rightarrow> real \<Rightarrow> real" where
  "hypot a b = sqrt (a\<^sup>2 + b\<^sup>2)"

section \<open>The landmark classifier: \<^verbatim>\<open>onResults\<close> of \<^verbatim>\<open>useHandTracking\<close>\<close>

text \<open>The initial state of the hook (\<^verbatim>\<open>useState<HandData>(...)\<close>).\<close>

definition initialHandData :: HandData where
  "initialHandData = \<lparr>gesture = NONE, hand_x = 0.5, hand_y = 0.5, isPresent = False\<rparr>"

text \<open>
  \<open>onResults prev results\<close> is the state that the callback hands to \<^verbatim>\<open>setHandData\<close>, where
  \<open>prev\<close> is the state before the call; \<open>Inl TypeError\<close> when the callback throws before it
  reaches \<^verbatim>\<open>setHandData\<close>. The landmarks are read in the order of the source.
\<close>

definition onResults :: "HandData \<Rightarrow> Results \<Rightarrow> error + HandData" where
  "onResults prev results =
    (case multiHandLandmarks results of
       None \<Rightarrow> Inr (prev\<lparr>isPresent := False, gesture := NONE\<rparr>)
     | Some hands \<Rightarrow>
        if length hands > 0 then
          (let landmarks = hands ! 0 in
           bind (elem landmarks 0) (\<lambda>palmBase.
           bind (elem landmarks 9) (\<lambda>middleFingerKnuckle.
           let centerX = (lm_x palmBase + lm_x middleFingerKnuckle) / 2;
               centerY = (lm_y palmBase + lm_y middleFingerKnuckle) / 2 in
           bind (elem landmarks 8) (\<lambda>l8.
           bind (elem landmarks 6) (\<lambda>l6.
           bind (elem landmarks 12) (\<lambda>l12.
           bind (elem landmarks 10) (\<lambda>l10.
           bind (elem landmarks 16) (\<lambda>l16.
           bind (elem landmarks 14) (\<lambda>l14.
           bind (elem landmarks 20) (\<lambda>l20.
           bind (elem landmarks 18) (\<lambda>l18.
           let isIndexOpen = (lm_y l8 < lm_y l6);
               isMiddleOpen = (lm_y l12 < lm_y l10);
               isRingOpen = (lm_y l16 < lm_y l14);
               isPinkyOpen = (lm_y l20 < lm_y l18);
               openFingersCount =
                 length (filter (\<lambda>b. b) [isIndexOpen, isMiddleOpen, isRingOpen, isPinkyOpen]);
               handScale =
                 hypot (lm_x palmBase - lm_x middleFingerKnuckle)
                       (lm_y palmBase - lm_y middleFingerKnuckle) in
           bind (elem landmarks 4) (\<lambda>l4.
           let pinchDist = hypot (lm_x l8 - lm_x l4) (lm_y l8 - lm_y l4);
               g = (if openFingersCount = 0 then FIST
                    else if pinchDist < 0.05 \<or> pinchDist < handScale * 0.5 then PINCH
                    else if openFingersCount \<ge> 3 then OPEN_HAND
                    else NONE) in
           Inr \<lparr>gesture = g, hand_x = 1 - centerX, hand_y = centerY,
                isPresent = True\<rparr>))))))))))))
        else Inr (prev\<lparr>isPresent := False, gesture := NONE\<rparr>))"

text \<open>
  The state of the hook after one call of the callback: the value handed to
  \<^verbatim>\<open>setHandData\<close>, or the previous state when the callback threw before reaching it.
\<close>

definition handData_after :: "HandData \<Rightarrow> Results \<Rightarrow> HandData" where
  "handData_after prev results =
     (case onResults prev results of Inl e \<Rightarrow> prev | Inr h \<Rightarrow> h)"

text \<open>The signal published after a sequence of frames, starting from the initial state.\<close>

definition published :: "Results list \<Rightarrow> HandData" where
  "published frames = foldl handData_after initialHandData frames"

subsection \<open>The classifier in the words of the specification\<close>

text \<open>
  The finger pairs (tip, proximal joint) of index, middle, ring and pinky; a finger is open
  iff its tip is above its joint; \<open>spec_openCount\<close> counts the open fingers; the hand scale is
  the distance between wrist (0) and middle-finger base (9), the pinch distance the one
  between index tip (8) and thumb tip (4), both in the image plane.
\<close>

definition spec_fingers :: "(nat \<times> nat) list" where
  "spec_fingers = [(8, 6), (12, 10), (16, 14), (20, 18)]"

definition spec_fingerOpen :: "Landmark list \<Rightarrow> nat \<times> nat \<Rightarrow> bool" where
  "spec_fingerOpen lms f = (lm_y (lms ! fst f) < lm_y (lms ! snd f))"

definition spec_openCount :: "Landmark list \<Rightarrow> nat" where
  "spec_openCount lms = length (filter (spec_fingerOpen lms) spec_fingers)"

definition spec_distance :: "Landmark \<Rightarrow> Landmark \<Rightarrow> real" where
  "spec_distance p q = sqrt ((lm_x p - lm_x q)\<^sup>2 + (lm_y p - lm_y q)\<^sup>2)"

definition spec_handScale :: "Landmark list \<Rightarrow> real" where
  "spec_handScale lms = spec_distance (lms ! 0) (lms ! 9)"

definition spec_pinchDistance :: "Landmark list \<Rightarrow> real" where
  "spec_pinchDistance lms = spec_distance (lms ! 8) (lms ! 4)"

definition spec_gesture :: "Landmark list \<Rightarrow> GestureType" where
  "spec_gesture lms =
     (if spec_openCount lms = 0 then FIST
      else if spec_pinchDistance lms < 0.05
              \<or> spec_pinchDistance lms < spec_handScale lms * 0.5 then PINCH
      else if spec_openCount lms \<ge> 3 then OPEN_HAND
      else NONE)"

definition spec_centroid_x :: "Landmark list \<Rightarrow> real" where
  "spec_centroid_x lms = (lm_x (lms ! 0) + lm_x (lms ! 9)) / 2"

definition spec_centroid_y :: "Landmark list \<Rightarrow> real" where
  "spec_centroid_y lms = (lm_y (lms ! 0) + lm_y (lms ! 9)) / 2"

text \<open>Concrete hands used as test inputs below. \<open>lm a b\<close> is a landmark at depth 0.\<close>

definition lm :: "real \<Rightarrow> real \<Rightarrow> Landmark" where
  "lm a b = \<lparr>lm_x = a, lm_y = b, lm_z = 0\<rparr>"



text \<open>
  A large open hand: hand scale 0.2, all four fingers extended, thumb tip 0.3 away from the
  index tip.
\<close>

definition openHand :: "Landmark list" where
  "openHand =
     [lm 0.5 0.8, lm 0.4 0.75, lm 0.3 0.7, lm 0.25 0.65, lm 0.2 0.2,
      lm 0.45 0.6, lm 0.45 0.5, lm 0.45 0.4, lm 0.5 0.2,
      lm 0.5 0.6, lm 0.5 0.5, lm 0.5 0.4, lm 0.5 0.3,
      lm 0.55 0.6, lm 0.55 0.5, lm 0.55 0.4, lm 0.55 0.3,
      lm 0.6 0.6, lm 0.6 0.5, lm 0.6 0.45, lm 0.6 0.4]"

text \<open>Malformed hands: one landmark short, and one landmark too many.\<close>

definition shortHand :: "Landmark list" where
  "shortHand = replicate 20 (lm 0.5 0.5)"

definition longHand :: "Landmark list" where
  "longHand = openHand @ [lm 0.5 0.5]"

section \<open>The interaction controller\<close>

text \<open>
  The controller state is spread over two components: \<^verbatim>\<open>mode\<close> is state of \<^verbatim>\<open>App\<close>,
  \<^verbatim>\<open>activePhotoIndex\<close> is state of \<^verbatim>\<open>MagicParticles\<close>, which receives \<^verbatim>\<open>mode\<close> and
  \<^verbatim>\<open>setMode\<close> as props.
\<close>

record Controller =
  mode :: AppMode
  activePhotoIndex :: "nat option"

definition initialController :: Controller where
  "initialController = \<lparr>mode = TREE, activePhotoIndex = None\<rparr>"

text \<open>
  The gesture effect of \<^verbatim>\<open>App\<close> (\<^verbatim>\<open>useEffect\<close> on gesture, presence and mode). It only
  calls \<^verbatim>\<open>setMode\<close>: \<^verbatim>\<open>activePhotoIndex\<close> is not in its scope.
\<close>

definition App_effect :: "HandData \<Rightarrow> Controller \<Rightarrow> Controller" where
  "App_effect handData s =
     (if \<not> isPresent handData then s
      else if gesture handData = FIST \<and> mode s \<noteq> TREE then s\<lparr>mode := TREE\<rparr>
      else if gesture handData = OPEN_HAND \<and> mode s = TREE then s\<lparr>mode := SCATTER\<rparr>
      else if gesture handData = OPEN_HAND \<and> mode s = PHOTO_VIEW then s\<lparr>mode := SCATTER\<rparr>
      else s)"

text \<open>
  The gesture switch of the frame callback of \<^verbatim>\<open>MagicParticles\<close> (\<^verbatim>\<open>useFrame\<close>).
  \<open>groupRef\<close> says whether \<^verbatim>\<open>groupRef.current\<close> is set (the callback returns at once
  otherwise), \<open>random\<close> is the value of \<^verbatim>\<open>Math.random()\<close>, a number in \<open>[0, 1)\<close>, and
  \<^verbatim>\<open>photoParticles\<close> has one entry per photo, so its length is \<open>length photos\<close>. The
  rotation of the group in the first half of the callback does not touch the controller state.
\<close>

definition useFrame ::
  "bool \<Rightarrow> real \<Rightarrow> string list \<Rightarrow> HandData \<Rightarrow> Controller \<Rightarrow> Controller" where
  "useFrame groupRef random photos handData s =
     (if \<not> groupRef then s
      else if gesture handData = PINCH \<and> mode s = SCATTER \<and> activePhotoIndex s = None
              \<and> length photos > 0
      then (let randomIndex = nat \<lfloor>random * real (length photos)\<rfloor>
            in s\<lparr>activePhotoIndex := Some randomIndex, mode := PHOTO_VIEW\<rparr>)
      else s)"

text \<open>The mode effect of \<^verbatim>\<open>MagicParticles\<close> (\<^verbatim>\<open>useEffect\<close> on mode).\<close>

definition MagicParticles_effect :: "Controller \<Rightarrow> Controller" where
  "MagicParticles_effect s =
     (if mode s \<noteq> PHOTO_VIEW then s\<lparr>activePhotoIndex := None\<rparr> else s)"

text \<open>
  The three handlers run at different times: the gesture effect after a render in which the
  signal or the mode changed, the mode effect after a render in which the mode changed (and
  once on mount), the frame callback on every animation frame. A run of the controller is a
  sequence of such events from the initial state.
\<close>

datatype event =
    GestureEffect HandData
  | FrameCallback bool real "string list" HandData
  | ModeEffect

fun step :: "Controller \<Rightarrow> event \<Rightarrow> Controller" where
  "step s (GestureEffect handData) = App_effect handData s"
| "step s (FrameCallback groupRef random photos handData) =
     useFrame groupRef random photos handData s"
| "step s ModeEffect = MagicParticles_effect s"

definition run :: "event list \<Rightarrow> Controller" where
  "run events = foldl step initialController events"

text \<open>
  One published signal processed to completion: the gesture effect, the mode effect if the
  gesture effect changed the mode, the frame callback of the next animation frame, and again
  the mode effect if the callback changed the mode.
\<close>

definition process_signal ::
  "bool \<Rightarrow> real \<Rightarrow> string list \<Rightarrow> HandData \<Rightarrow> Controller \<Rightarrow> Controller" where
  "process_signal groupRef random photos handData s =
     (let s1 = App_effect handData s;
          s2 = (if mode s1 \<noteq> mode s then MagicParticles_effect s1 else s1);
          s3 = useFrame groupRef random photos handData s2;
          s4 = (if mode s3 \<noteq> mode s2 then MagicParticles_effect s3 else s3)
      in s4)"

text \<open>A sequence of signals, each with the random number drawn in its frame.\<close>

fun process_signals ::
  "bool \<Rightarrow> string list \<Rightarrow> (real \<times> HandData) list \<Rightarrow> Controller \<Rightarrow> Controller" where
  "process_signals groupRef photos [] s = s"
| "process_signals groupRef photos ((random, handData) # rest) s =
     process_signals groupRef photos rest (process_signal groupRef random photos handData s)"

text \<open>A signal with a hand in the picture.\<close>

abbreviation present_signal :: "GestureType \<Rightarrow> real \<Rightarrow> real \<Rightarrow> HandData" where
  "present_signal g a b \<equiv> \<lparr>gesture = g, hand_x = a, hand_y = b, isPresent = True\<rparr>"

section \<open>Properties of the classifier\<close>

lemma elem_in_range: "i < length landmarks \<Longrightarrow> elem landmarks i = Inr (landmarks ! i)"
  by (simp add: elem_def)

lemma elem_out_of_range: "length landmarks \<le> i \<Longrightarrow> elem landmarks i = Inl TypeError"
  by (simp add: elem_def)

lemma bind_Inr: "bind (Inr v) f = f v"
  by (simp add: bind_def)

lemma bind_Inl: "bind (Inl e) f = Inl e"
  by (simp add: bind_def)

text \<open>
  On a hand with at least 21 landmarks the callback does not throw, and what it publishes is
  the specification's gesture and the mirrored centroid.
\<close>

lemma onResults_present:
  assumes "21 \<le> length lms"
  shows "onResults prev \<lparr>multiHandLandmarks = Some (lms # others)\<rparr> =
           Inr \<lparr>gesture = spec_gesture lms,
                hand_x = 1 - spec_centroid_x lms,
                hand_y = spec_centroid_y lms,
                isPresent = True\<rparr>"
proof -
  have el: "\<And>i. i \<le> 20 \<Longrightarrow> elem lms i = Inr (lms ! i)"
    using assms by (simp add: elem_in_range)
  have cnt: "length (filter (\<lambda>b. b)
               [lm_y (lms ! 8) < lm_y (lms ! 6), lm_y (lms ! 12) < lm_y (lms ! 10),
                lm_y (lms ! 16) < lm_y (lms ! 14), lm_y (lms ! 20) < lm_y (lms ! 18)])
             = spec_openCount lms"
    by (simp add: spec_openCount_def spec_fingers_def spec_fingerOpen_def)
  have cnt0: "(filter (\<lambda>b. b)
               [lm_y (lms ! 8) < lm_y (lms ! 6), lm_y (lms ! 12) < lm_y (lms ! 10),
                lm_y (lms ! 16) < lm_y (lms ! 14), lm_y (lms ! 20) < lm_y (lms ! 18)] = [])
             = (spec_openCount lms = 0)"
    by (simp add: spec_openCount_def spec_fingers_def spec_fingerOpen_def)
  show ?thesis
    unfolding onResults_def
    by (simp add: el bind_Inr Let_def cnt cnt0 hypot_def spec_gesture_def spec_handScale_def
        spec_pinchDistance_def spec_distance_def spec_centroid_x_def spec_centroid_y_def
        del: filter.simps)
qed




text \<open>
  C6. For every present hand (one with all 21 landmarks) the published cursor is the midpoint
  of the wrist (0) and the middle-finger base (9), taken per axis, with the horizontal axis
  mirrored: \<open>x = 1 - centroid_x\<close> and \<open>y = centroid_y\<close>.
\<close>

theorem C6_cursor_mirrored:
  assumes "21 \<le> length lms"
  shows "\<exists>h. onResults prev \<lparr>multiHandLandmarks = Some (lms # others)\<rparr> = Inr h
             \<and> isPresent h
             \<and> hand_x h = 1 - (lm_x (lms ! 0) + lm_x (lms ! 9)) / 2
             \<and> hand_y h = (lm_y (lms ! 0) + lm_y (lms ! 9)) / 2"
  using onResults_present [OF assms, of prev others]
  by (simp add: spec_centroid_x_def spec_centroid_y_def)

theorem C6_cursor_mirrored_witness:
  "21 \<le> length openHand
   \<and> (\<exists>h. onResults initialHandData \<lparr>multiHandLandmarks = Some [openHand]\<rparr> = Inr h
           \<and> isPresent h \<and> hand_x h = 0.5 \<and> hand_y h = 0.7)"
proof -
  have len: "21 \<le> length openHand" by (simp add: openHand_def)
  from C6_cursor_mirrored [OF len, of initialHandData "[]"] len
  show ?thesis by (simp add: openHand_def lm_def)
qed

text \<open>
  C10. Before any frame the published signal is \<open>NONE\<close> at \<open>(0.5, 0.5)\<close>, not present. On a
  frame without a hand (the landmark array missing or empty) the gesture becomes \<open>NONE\<close> and
  the presence flag false, while both coordinates keep their previous values.
\<close>

theorem C10_initial_and_absent:
  "published [] = \<lparr>gesture = NONE, hand_x = 0.5, hand_y = 0.5, isPresent = False\<rparr>
   \<and> onResults prev \<lparr>multiHandLandmarks = None\<rparr>
       = Inr \<lparr>gesture = NONE, hand_x = hand_x prev, hand_y = hand_y prev, isPresent = False\<rparr>
   \<and> onResults prev \<lparr>multiHandLandmarks = Some []\<rparr>
       = Inr \<lparr>gesture = NONE, hand_x = hand_x prev, hand_y = hand_y prev, isPresent = False\<rparr>
   \<and> handData_after prev \<lparr>multiHandLandmarks = None\<rparr>
       = \<lparr>gesture = NONE, hand_x = hand_x prev, hand_y = hand_y prev, isPresent = False\<rparr>
   \<and> handData_after prev \<lparr>multiHandLandmarks = Some []\<rparr>
       = \<lparr>gesture = NONE, hand_x = hand_x prev, hand_y = hand_y prev, isPresent = False\<rparr>"
  by (simp add: published_def initialHandData_def handData_after_def onResults_def)

subsection \<open>Malformed input\<close>

text \<open>
  A first hand with fewer than 21 landmarks: the read of landmark 20 finds \<^verbatim>\<open>undefined\<close>
  (or an earlier read does), and the callback throws.
\<close>

lemma onResults_short:
  assumes "length lms < 21"
  shows "onResults prev \<lparr>multiHandLandmarks = Some (lms # others)\<rparr> = Inl TypeError"
proof -
  have e20: "elem lms 20 = Inl TypeError"
    using assms by (simp add: elem_def)
  have any: "\<And>i (f :: Landmark \<Rightarrow> error + HandData).
      (\<And>v. f v = Inl TypeError) \<Longrightarrow> bind (elem lms i) f = Inl TypeError"
    by (simp add: bind_def split: sum.splits) (metis error.exhaust)
  show ?thesis
    unfolding onResults_def
    by (simp add: Let_def e20 bind_Inl any)
qed


text \<open>
  C7, as the specification states it, fails on the code. With a hand in the picture and a
  \<open>FIST\<close> published, a frame whose first hand has 20 landmarks makes the callback throw a
  \<open>TypeError\<close> (there is no \<open>InvalidInput\<close>), and the published signal stays as it was, still
  present; a frame whose first hand has 22 landmarks is classified and published as present.
\<close>

theorem C7_counterexample:
  "length shortHand = 20
   \<and> onResults (present_signal FIST 0.5 0.5) \<lparr>multiHandLandmarks = Some [shortHand]\<rparr>
       = Inl TypeError
   \<and> isPresent (handData_after (present_signal FIST 0.5 0.5)
                  \<lparr>multiHandLandmarks = Some [shortHand]\<rparr>)
   \<and> gesture (handData_after (present_signal FIST 0.5 0.5)
                  \<lparr>multiHandLandmarks = Some [shortHand]\<rparr>) = FIST
   \<and> length longHand = 22
   \<and> isPresent (handData_after initialHandData \<lparr>multiHandLandmarks = Some [longHand]\<rparr>)"
proof -
  have len: "length shortHand < 21" by (simp add: shortHand_def)
  have len2: "21 \<le> length longHand" by (simp add: longHand_def openHand_def)
  have "length shortHand = 20" "length longHand = 22"
    by (simp_all add: shortHand_def longHand_def openHand_def)
  then show ?thesis
    using onResults_short [OF len, of "present_signal FIST 0.5 0.5" "[]"]
      onResults_present [OF len2, of initialHandData "[]"]
    by (simp add: handData_after_def)
qed

text \<open>
  C7, amended. The callback does not validate the landmark count. When the first hand has
  fewer than 21 landmarks the callback throws a \<open>TypeError\<close> before it publishes anything, so
  the published signal keeps its previous value, presence flag included. When the first hand
  has more than 21 landmarks it is classified from the landmarks 0 to 20 like a well-formed
  hand and published as present.
\<close>

theorem C7_malformed_input:
  "(length lms < 21 \<longrightarrow>
      onResults prev \<lparr>multiHandLandmarks = Some (lms # others)\<rparr> = Inl TypeError
      \<and> handData_after prev \<lparr>multiHandLandmarks = Some (lms # others)\<rparr> = prev)
   \<and> (21 < length lms \<longrightarrow>
      handData_after prev \<lparr>multiHandLandmarks = Some (lms # others)\<rparr> =
        \<lparr>gesture = spec_gesture lms, hand_x = 1 - spec_centroid_x lms,
         hand_y = spec_centroid_y lms, isPresent = True\<rparr>)"
  using onResults_short [of lms prev others] onResults_present [of lms prev others]
  by (simp add: handData_after_def)

theorem C7_malformed_input_witness:
  "length shortHand < 21
   \<and> onResults (present_signal OPEN_HAND 0.4 0.6) \<lparr>multiHandLandmarks = Some [shortHand]\<rparr>
       = Inl TypeError
   \<and> handData_after (present_signal OPEN_HAND 0.4 0.6) \<lparr>multiHandLandmarks = Some [shortHand]\<rparr>
       = present_signal OPEN_HAND 0.4 0.6
   \<and> 21 < length longHand
   \<and> isPresent (handData_after initialHandData \<lparr>multiHandLandmarks = Some [longHand]\<rparr>)
   \<and> hand_x (handData_after initialHandData \<lparr>multiHandLandmarks = Some [longHand]\<rparr>)
       = 1 - spec_centroid_x longHand"
proof -
  have len: "length shortHand < 21" by (simp add: shortHand_def)
  have len2: "21 < length longHand" by (simp add: longHand_def openHand_def)
  from C7_malformed_input [of shortHand "present_signal OPEN_HAND 0.4 0.6" "[]"] len
  have short: "onResults (present_signal OPEN_HAND 0.4 0.6)
                 \<lparr>multiHandLandmarks = Some [shortHand]\<rparr> = Inl TypeError"
    "handData_after (present_signal OPEN_HAND 0.4 0.6) \<lparr>multiHandLandmarks = Some [shortHand]\<rparr>
       = present_signal OPEN_HAND 0.4 0.6"
    by blast+
  from C7_malformed_input [of longHand initialHandData "[]"] len2
  have long: "handData_after initialHandData \<lparr>multiHandLandmarks = Some [longHand]\<rparr> =
        \<lparr>gesture = spec_gesture longHand, hand_x = 1 - spec_centroid_x longHand,
         hand_y = spec_centroid_y longHand, isPresent = True\<rparr>"
    by blast
  from len len2 short show ?thesis by (simp add: long)
qed

subsection \<open>The open hand\<close>




section \<open>Properties of the controller\<close>

lemma random_index_in_range:
  assumes "0 \<le> r" "r < 1" "0 < n"
  shows "nat \<lfloor>r * real n\<rfloor> < n"
proof -
  have "r * real n < real n" using assms by simp
  then have "\<lfloor>r * real n\<rfloor> < int n" by (simp add: floor_less_iff)
  moreover have "0 \<le> \<lfloor>r * real n\<rfloor>" using assms by simp
  ultimately show ?thesis by linarith
qed

text \<open>A signal that matches no trigger leaves the whole controller state as it is.\<close>

lemma process_signal_no_trigger:
  assumes "\<not> (isPresent h \<and> gesture h = FIST \<and> mode s \<noteq> TREE)"
    and "\<not> (isPresent h \<and> gesture h = OPEN_HAND \<and> mode s = TREE)"
    and "\<not> (isPresent h \<and> gesture h = OPEN_HAND \<and> mode s = PHOTO_VIEW)"
    and "\<not> (groupRef \<and> gesture h = PINCH \<and> mode s = SCATTER \<and> activePhotoIndex s = None
            \<and> photos \<noteq> [])"
  shows "process_signal groupRef r photos h s = s"
proof -
  have a: "App_effect h s = s" using assms(1-3) by (auto simp: App_effect_def)
  have f: "useFrame groupRef r photos h s = s" using assms(4) by (auto simp: useFrame_def)
  show ?thesis by (simp add: process_signal_def a f)
qed

text \<open>
  The gesture effect runs again after the render that follows its own mode change; the second
  run changes nothing.
\<close>

lemma App_effect_idem: "App_effect h (App_effect h s) = App_effect h s"
  by (simp add: App_effect_def)

text \<open>
  C2. For every present signal: \<open>FIST\<close> from \<open>SCATTER\<close> or \<open>PHOTO_VIEW\<close> leads to \<open>TREE\<close>, and
  changes nothing in \<open>TREE\<close>; \<open>OPEN_HAND\<close> from \<open>TREE\<close> leads to \<open>SCATTER\<close>; \<open>OPEN_HAND\<close> from
  \<open>PHOTO_VIEW\<close> leads to \<open>SCATTER\<close> (not to \<open>TREE\<close>) and the active item is cleared; a signal
  that matches no trigger leaves the mode unchanged.
\<close>

theorem C2_mode_transitions:
  "process_signal groupRef r photos (present_signal FIST a b)
      \<lparr>mode = SCATTER, activePhotoIndex = idx\<rparr> = \<lparr>mode = TREE, activePhotoIndex = None\<rparr>
   \<and> process_signal groupRef r photos (present_signal FIST a b)
      \<lparr>mode = PHOTO_VIEW, activePhotoIndex = idx\<rparr> = \<lparr>mode = TREE, activePhotoIndex = None\<rparr>
   \<and> process_signal groupRef r photos (present_signal FIST a b)
      \<lparr>mode = TREE, activePhotoIndex = idx\<rparr> = \<lparr>mode = TREE, activePhotoIndex = idx\<rparr>
   \<and> process_signal groupRef r photos (present_signal OPEN_HAND a b)
      \<lparr>mode = TREE, activePhotoIndex = idx\<rparr> = \<lparr>mode = SCATTER, activePhotoIndex = None\<rparr>
   \<and> process_signal groupRef r photos (present_signal OPEN_HAND a b)
      \<lparr>mode = PHOTO_VIEW, activePhotoIndex = idx\<rparr> = \<lparr>mode = SCATTER, activePhotoIndex = None\<rparr>
   \<and> mode (App_effect (present_signal OPEN_HAND a b)
             \<lparr>mode = PHOTO_VIEW, activePhotoIndex = idx\<rparr>) = SCATTER
   \<and> (isPresent h
        \<and> \<not> (gesture h = FIST \<and> mode s \<noteq> TREE)
        \<and> \<not> (gesture h = OPEN_HAND \<and> mode s = TREE)
        \<and> \<not> (gesture h = OPEN_HAND \<and> mode s = PHOTO_VIEW)
        \<and> \<not> (gesture h = PINCH \<and> mode s = SCATTER \<and> activePhotoIndex s = None
               \<and> photos \<noteq> [])
        \<longrightarrow> process_signal groupRef r photos h s = s)"
proof -
  have nt: "isPresent h
        \<and> \<not> (gesture h = FIST \<and> mode s \<noteq> TREE)
        \<and> \<not> (gesture h = OPEN_HAND \<and> mode s = TREE)
        \<and> \<not> (gesture h = OPEN_HAND \<and> mode s = PHOTO_VIEW)
        \<and> \<not> (gesture h = PINCH \<and> mode s = SCATTER \<and> activePhotoIndex s = None
               \<and> photos \<noteq> [])
        \<longrightarrow> process_signal groupRef r photos h s = s"
    using process_signal_no_trigger [of h s groupRef photos r] by blast
  have tr: "process_signal groupRef r photos (present_signal FIST a b)
      \<lparr>mode = SCATTER, activePhotoIndex = idx\<rparr> = \<lparr>mode = TREE, activePhotoIndex = None\<rparr>"
    "process_signal groupRef r photos (present_signal FIST a b)
      \<lparr>mode = PHOTO_VIEW, activePhotoIndex = idx\<rparr> = \<lparr>mode = TREE, activePhotoIndex = None\<rparr>"
    "process_signal groupRef r photos (present_signal FIST a b)
      \<lparr>mode = TREE, activePhotoIndex = idx\<rparr> = \<lparr>mode = TREE, activePhotoIndex = idx\<rparr>"
    "process_signal groupRef r photos (present_signal OPEN_HAND a b)
      \<lparr>mode = TREE, activePhotoIndex = idx\<rparr> = \<lparr>mode = SCATTER, activePhotoIndex = None\<rparr>"
    "process_signal groupRef r photos (present_signal OPEN_HAND a b)
      \<lparr>mode = PHOTO_VIEW, activePhotoIndex = idx\<rparr> = \<lparr>mode = SCATTER, activePhotoIndex = None\<rparr>"
    "mode (App_effect (present_signal OPEN_HAND a b)
             \<lparr>mode = PHOTO_VIEW, activePhotoIndex = idx\<rparr>) = SCATTER"
    by (simp_all add: process_signal_def App_effect_def useFrame_def MagicParticles_effect_def
        Let_def)
  from tr nt show ?thesis by blast
qed

text \<open>The theorem at a present \<open>NONE\<close> and a present \<open>OPEN_HAND\<close> in \<open>PHOTO_VIEW\<close>.\<close>

theorem C2_mode_transitions_witness:
  "isPresent (present_signal NONE 0.5 0.5)
   \<and> process_signal True 0 [''photo''] (present_signal NONE 0.5 0.5)
      \<lparr>mode = PHOTO_VIEW, activePhotoIndex = Some 0\<rparr>
     = \<lparr>mode = PHOTO_VIEW, activePhotoIndex = Some 0\<rparr>
   \<and> process_signal True 0 [''photo''] (present_signal OPEN_HAND 0.5 0.5)
      \<lparr>mode = PHOTO_VIEW, activePhotoIndex = Some 0\<rparr>
     = \<lparr>mode = SCATTER, activePhotoIndex = None\<rparr>"
  using C2_mode_transitions [of True 0 "[''photo'']" "0.5" "0.5" "Some 0"
      "present_signal NONE 0.5 0.5" "\<lparr>mode = PHOTO_VIEW, activePhotoIndex = Some 0\<rparr>"]
  by simp

text \<open>
  C3. A present \<open>PINCH\<close> in \<open>SCATTER\<close> leads to \<open>PHOTO_VIEW\<close> exactly when no item is active and
  there is at least one photo, and it then selects a valid index into the photos. In
  \<open>PHOTO_VIEW\<close> a further \<open>PINCH\<close> changes neither the mode nor the active item. From the
  initial state with one photo, the signals \<open>OPEN_HAND\<close>, \<open>PINCH\<close> end in \<open>PHOTO_VIEW\<close> with
  that photo (index 0) active, and further \<open>PINCH\<close> signals keep it. Here \<open>r\<close> is the random
  number of the frame of the pinch, and the particle group is mounted (\<open>groupRef\<close> is set).
\<close>

theorem C3_pinch_selection:
  assumes "0 \<le> r" and "r < 1"
  shows "((mode (process_signal True r photos (present_signal PINCH a b)
                 \<lparr>mode = SCATTER, activePhotoIndex = idx\<rparr>) = PHOTO_VIEW)
           = (idx = None \<and> photos \<noteq> []))
    \<and> (photos \<noteq> [] \<longrightarrow>
           (\<exists>i < length photos.
              process_signal True r photos (present_signal PINCH a b)
                 \<lparr>mode = SCATTER, activePhotoIndex = None\<rparr>
              = \<lparr>mode = PHOTO_VIEW, activePhotoIndex = Some i\<rparr>))
    \<and> process_signal groupRef r photos (present_signal PINCH a b)
            \<lparr>mode = PHOTO_VIEW, activePhotoIndex = idx\<rparr>
          = \<lparr>mode = PHOTO_VIEW, activePhotoIndex = idx\<rparr>
    \<and> process_signals True [photo]
            [(r0, present_signal OPEN_HAND a b), (r, present_signal PINCH c d)]
            initialController
          = \<lparr>mode = PHOTO_VIEW, activePhotoIndex = Some 0\<rparr>
    \<and> process_signals True [photo]
            [(r0, present_signal OPEN_HAND a b), (r, present_signal PINCH c d),
             (r1, present_signal PINCH c d), (r2, present_signal PINCH c d)]
            initialController
          = \<lparr>mode = PHOTO_VIEW, activePhotoIndex = Some 0\<rparr>"
proof -
  have p1: "(mode (process_signal True r photos (present_signal PINCH a b)
                 \<lparr>mode = SCATTER, activePhotoIndex = idx\<rparr>) = PHOTO_VIEW)
           = (idx = None \<and> photos \<noteq> [])"
    by (simp add: process_signal_def App_effect_def useFrame_def MagicParticles_effect_def Let_def)
  have p2: "photos \<noteq> [] \<longrightarrow>
           (\<exists>i < length photos.
              process_signal True r photos (present_signal PINCH a b)
                 \<lparr>mode = SCATTER, activePhotoIndex = None\<rparr>
              = \<lparr>mode = PHOTO_VIEW, activePhotoIndex = Some i\<rparr>)"
  proof
    assume ne: "photos \<noteq> []"
    then have "nat \<lfloor>r * real (length photos)\<rfloor> < length photos"
      using assms by (simp add: random_index_in_range)
    moreover have "process_signal True r photos (present_signal PINCH a b)
                 \<lparr>mode = SCATTER, activePhotoIndex = None\<rparr>
              = \<lparr>mode = PHOTO_VIEW,
                 activePhotoIndex = Some (nat \<lfloor>r * real (length photos)\<rfloor>)\<rparr>"
      using ne
      by (simp add: process_signal_def App_effect_def useFrame_def MagicParticles_effect_def
          Let_def)
    ultimately show "\<exists>i < length photos.
              process_signal True r photos (present_signal PINCH a b)
                 \<lparr>mode = SCATTER, activePhotoIndex = None\<rparr>
              = \<lparr>mode = PHOTO_VIEW, activePhotoIndex = Some i\<rparr>"
      by blast
  qed
  have p3: "\<And>q. process_signal groupRef q photos (present_signal PINCH a b)
            \<lparr>mode = PHOTO_VIEW, activePhotoIndex = idx\<rparr>
          = \<lparr>mode = PHOTO_VIEW, activePhotoIndex = idx\<rparr>"
    by (simp add: process_signal_no_trigger)
  have fl: "nat \<lfloor>r\<rfloor> = 0" using assms by (simp add: floor_eq_iff)
  have p4: "process_signals True [photo]
            [(r0, present_signal OPEN_HAND a b), (r, present_signal PINCH c d)]
            initialController
          = \<lparr>mode = PHOTO_VIEW, activePhotoIndex = Some 0\<rparr>"
    using fl
    by (simp add: initialController_def process_signal_def App_effect_def useFrame_def
        MagicParticles_effect_def Let_def)
  have p5: "process_signals True [photo]
            [(r0, present_signal OPEN_HAND a b), (r, present_signal PINCH c d),
             (r1, present_signal PINCH c d), (r2, present_signal PINCH c d)]
            initialController
          = \<lparr>mode = PHOTO_VIEW, activePhotoIndex = Some 0\<rparr>"
    using fl
    by (simp add: initialController_def process_signal_def App_effect_def useFrame_def
        MagicParticles_effect_def Let_def)
  from p1 p2 p3 [of r] p4 p5 show ?thesis by blast
qed

text \<open>The theorem with two photos and the random number 0.7, which selects the second.\<close>

theorem C3_pinch_selection_witness:
  "(0::real) \<le> 0.7 \<and> (0.7::real) < 1 \<and> [''a'', ''b''] \<noteq> ([]::string list)
   \<and> mode (process_signal True 0.7 [''a'', ''b''] (present_signal PINCH 0.5 0.5)
              \<lparr>mode = SCATTER, activePhotoIndex = None\<rparr>) = PHOTO_VIEW
   \<and> process_signal True 0.7 [''a'', ''b''] (present_signal PINCH 0.5 0.5)
        \<lparr>mode = SCATTER, activePhotoIndex = None\<rparr>
      = \<lparr>mode = PHOTO_VIEW, activePhotoIndex = Some 1\<rparr>
   \<and> process_signals True [''a'']
        [(0.2, present_signal OPEN_HAND 0.5 0.5), (0.7, present_signal PINCH 0.5 0.5)]
        initialController
      = \<lparr>mode = PHOTO_VIEW, activePhotoIndex = Some 0\<rparr>"
proof -
  have h: "(0::real) \<le> 0.7" "(0.7::real) < 1" by simp_all
  have sel: "process_signal True 0.7 [''a'', ''b''] (present_signal PINCH 0.5 0.5)
        \<lparr>mode = SCATTER, activePhotoIndex = None\<rparr>
      = \<lparr>mode = PHOTO_VIEW, activePhotoIndex = Some 1\<rparr>"
    by (simp add: process_signal_def App_effect_def useFrame_def MagicParticles_effect_def
        Let_def)
  from C3_pinch_selection [OF h, of "[''a'', ''b'']" "0.5" "0.5" None True "''a''" "0.2"
      "0.5" "0.5" 0 0]
  have "mode (process_signal True 0.7 [''a'', ''b''] (present_signal PINCH 0.5 0.5)
              \<lparr>mode = SCATTER, activePhotoIndex = None\<rparr>) = PHOTO_VIEW"
    and "process_signals True [''a'']
        [(0.2, present_signal OPEN_HAND 0.5 0.5), (0.7, present_signal PINCH 0.5 0.5)]
        initialController
      = \<lparr>mode = PHOTO_VIEW, activePhotoIndex = Some 0\<rparr>"
    by simp_all
  with h sel show ?thesis by simp
qed

text \<open>
  C9. A present \<open>PINCH\<close> in \<open>SCATTER\<close> without any photo is ignored: the mode stays \<open>SCATTER\<close> and
  no item becomes active. The handlers are total functions of the state: there is no error
  value that could be surfaced.
\<close>

theorem C9_pinch_without_items:
  "process_signal groupRef r [] (present_signal PINCH a b)
      \<lparr>mode = SCATTER, activePhotoIndex = None\<rparr> = \<lparr>mode = SCATTER, activePhotoIndex = None\<rparr>
   \<and> useFrame groupRef r [] (present_signal PINCH a b)
      \<lparr>mode = SCATTER, activePhotoIndex = None\<rparr> = \<lparr>mode = SCATTER, activePhotoIndex = None\<rparr>"
  by (simp add: process_signal_no_trigger) (simp add: useFrame_def)

subsection \<open>The active item and the mode\<close>

lemma MagicParticles_effect_mode: "mode (MagicParticles_effect s) = mode s"
  by (simp add: MagicParticles_effect_def)

lemma MagicParticles_effect_settled:
  "mode s = PHOTO_VIEW \<longrightarrow> activePhotoIndex s \<noteq> None \<Longrightarrow>
   (activePhotoIndex (MagicParticles_effect s) \<noteq> None) = (mode s = PHOTO_VIEW)"
  by (simp add: MagicParticles_effect_def)

lemma step_keeps_weak:
  "mode s = PHOTO_VIEW \<longrightarrow> activePhotoIndex s \<noteq> None \<Longrightarrow>
   mode (step s e) = PHOTO_VIEW \<longrightarrow> activePhotoIndex (step s e) \<noteq> None"
  by (cases e)
     (auto simp: App_effect_def useFrame_def MagicParticles_effect_def Let_def split: if_splits)

lemma foldl_step_weak:
  "mode s = PHOTO_VIEW \<longrightarrow> activePhotoIndex s \<noteq> None \<Longrightarrow>
   mode (foldl step s es) = PHOTO_VIEW \<longrightarrow> activePhotoIndex (foldl step s es) \<noteq> None"
proof (induction es arbitrary: s)
  case Nil
  then show ?case by simp
next
  case (Cons e es)
  have "mode (step s e) = PHOTO_VIEW \<longrightarrow> activePhotoIndex (step s e) \<noteq> None"
    using Cons.prems by (rule step_keeps_weak)
  then show ?case using Cons.IH [of "step s e"] by simp
qed

lemma run_weak: "mode (run es) = PHOTO_VIEW \<longrightarrow> activePhotoIndex (run es) \<noteq> None"
  unfolding run_def by (rule foldl_step_weak) (simp add: initialController_def)

text \<open>
  Only the gesture effect leaves \<open>PHOTO_VIEW\<close>. It leaves the active item as it is; the mode
  effect that follows clears it.
\<close>

lemma leaving_keeps_index:
  "mode s = PHOTO_VIEW \<Longrightarrow> mode (step s e) \<noteq> PHOTO_VIEW \<Longrightarrow>
   (\<exists>h. e = GestureEffect h) \<and> activePhotoIndex (step s e) = activePhotoIndex s
   \<and> activePhotoIndex (MagicParticles_effect (step s e)) = None"
  by (cases e)
     (auto simp: App_effect_def useFrame_def MagicParticles_effect_def Let_def split: if_splits)

text \<open>
  C4, as the specification states it, fails on the code. From the initial state, an
  \<open>OPEN_HAND\<close>, a \<open>PINCH\<close> with one photo and another \<open>OPEN_HAND\<close> lead to a state in which the
  mode is \<open>SCATTER\<close> and photo 0 is still active: the gesture effect has changed the mode, and
  the mode effect that clears the active item has not run yet.
\<close>

theorem C4_counterexample:
  "mode (run [GestureEffect (present_signal OPEN_HAND 0.5 0.5), ModeEffect,
              FrameCallback True 0 [''photo''] (present_signal PINCH 0.5 0.5), ModeEffect,
              GestureEffect (present_signal OPEN_HAND 0.5 0.5)]) = SCATTER
   \<and> activePhotoIndex
        (run [GestureEffect (present_signal OPEN_HAND 0.5 0.5), ModeEffect,
              FrameCallback True 0 [''photo''] (present_signal PINCH 0.5 0.5), ModeEffect,
              GestureEffect (present_signal OPEN_HAND 0.5 0.5)]) = Some 0"
  by (simp add: run_def initialController_def App_effect_def useFrame_def
      MagicParticles_effect_def)

text \<open>
  C4, amended. The initial state is \<open>TREE\<close> with no active item. In every state that the
  three handlers can reach from it, in any order, the mode \<open>PHOTO_VIEW\<close> implies an active
  item; and once the mode effect has run, an item is active if and only if the mode is
  \<open>PHOTO_VIEW\<close>. A step that leaves \<open>PHOTO_VIEW\<close> changes the mode and keeps the active item;
  the mode effect that follows the mode change clears it.
\<close>

theorem C4_invariant_after_mode_effect:
  "initialController = \<lparr>mode = TREE, activePhotoIndex = None\<rparr>
   \<and> (mode (run es) = PHOTO_VIEW \<longrightarrow> activePhotoIndex (run es) \<noteq> None)
   \<and> mode (MagicParticles_effect (run es)) = mode (run es)
   \<and> ((activePhotoIndex (MagicParticles_effect (run es)) \<noteq> None)
        = (mode (MagicParticles_effect (run es)) = PHOTO_VIEW))
   \<and> (mode (run es) = PHOTO_VIEW \<and> mode (step (run es) e) \<noteq> PHOTO_VIEW \<longrightarrow>
        activePhotoIndex (step (run es) e) = activePhotoIndex (run es)
        \<and> activePhotoIndex (MagicParticles_effect (step (run es) e)) = None)"
proof -
  have weak: "mode (run es) = PHOTO_VIEW \<longrightarrow> activePhotoIndex (run es) \<noteq> None"
    by (rule run_weak)
  have settled: "(activePhotoIndex (MagicParticles_effect (run es)) \<noteq> None)
        = (mode (MagicParticles_effect (run es)) = PHOTO_VIEW)"
    using MagicParticles_effect_settled [OF weak]
    by (simp only: MagicParticles_effect_mode)
  have leave: "mode (run es) = PHOTO_VIEW \<and> mode (step (run es) e) \<noteq> PHOTO_VIEW \<longrightarrow>
        activePhotoIndex (step (run es) e) = activePhotoIndex (run es)
        \<and> activePhotoIndex (MagicParticles_effect (step (run es) e)) = None"
    using leaving_keeps_index [of "run es" e] by blast
  have init: "initialController = \<lparr>mode = TREE, activePhotoIndex = None\<rparr>"
    by (simp add: initialController_def)
  from init weak settled leave MagicParticles_effect_mode [of "run es"]
  show ?thesis by blast
qed

text \<open>
  The theorem at the run that enters \<open>PHOTO_VIEW\<close> with photo 0, followed by the gesture effect
  of an \<open>OPEN_HAND\<close>.
\<close>

theorem C4_invariant_after_mode_effect_witness:
  "mode (run [GestureEffect (present_signal OPEN_HAND 0.5 0.5), ModeEffect,
              FrameCallback True 0 [''photo''] (present_signal PINCH 0.5 0.5)]) = PHOTO_VIEW
   \<and> mode (step (run [GestureEffect (present_signal OPEN_HAND 0.5 0.5), ModeEffect,
              FrameCallback True 0 [''photo''] (present_signal PINCH 0.5 0.5)])
             (GestureEffect (present_signal OPEN_HAND 0.5 0.5))) \<noteq> PHOTO_VIEW
   \<and> activePhotoIndex (run [GestureEffect (present_signal OPEN_HAND 0.5 0.5), ModeEffect,
              FrameCallback True 0 [''photo''] (present_signal PINCH 0.5 0.5)]) \<noteq> None
   \<and> activePhotoIndex (step (run [GestureEffect (present_signal OPEN_HAND 0.5 0.5), ModeEffect,
              FrameCallback True 0 [''photo''] (present_signal PINCH 0.5 0.5)])
             (GestureEffect (present_signal OPEN_HAND 0.5 0.5))) = Some 0
   \<and> activePhotoIndex (MagicParticles_effect
        (step (run [GestureEffect (present_signal OPEN_HAND 0.5 0.5), ModeEffect,
              FrameCallback True 0 [''photo''] (present_signal PINCH 0.5 0.5)])
             (GestureEffect (present_signal OPEN_HAND 0.5 0.5)))) = None"
proof -
  have r: "run [GestureEffect (present_signal OPEN_HAND 0.5 0.5), ModeEffect,
              FrameCallback True 0 [''photo''] (present_signal PINCH 0.5 0.5)]
           = \<lparr>mode = PHOTO_VIEW, activePhotoIndex = Some 0\<rparr>"
    by (simp add: run_def initialController_def App_effect_def useFrame_def
        MagicParticles_effect_def)
  have m: "mode (step \<lparr>mode = PHOTO_VIEW, activePhotoIndex = Some 0\<rparr>
             (GestureEffect (present_signal OPEN_HAND 0.5 0.5))) \<noteq> PHOTO_VIEW"
    by (simp add: App_effect_def)
  from C4_invariant_after_mode_effect
    [of "[GestureEffect (present_signal OPEN_HAND 0.5 0.5), ModeEffect,
          FrameCallback True 0 [''photo''] (present_signal PINCH 0.5 0.5)]"
        "GestureEffect (present_signal OPEN_HAND 0.5 0.5)"] m
  show ?thesis unfolding r by simp
qed

subsection \<open>Absent signals\<close>








end
